theory Spec2Isabelle
  imports Main "HOL-Library.Sublist"
begin

section \<open>The signing agent's archive pipelines (src/libs/utils.js)\<close>

text \<open>
  The module shells out to \<^verbatim>\<open>unzip\<close>, \<^verbatim>\<open>find\<close>, \<^verbatim>\<open>xcodebuild\<close>, \<^verbatim>\<open>codesign\<close>,
  \<^verbatim>\<open>security\<close> and \<^verbatim>\<open>zip\<close> through the promisified \<^verbatim>\<open>child_process.exec\<close> and decides,
  from what the tools print, which artifacts to deliver and which identity to sign with.
  The embedding keeps every decision of the JavaScript and takes the tools as a
  parameter: a host answers each spawned command with a rejection or with the pair of
  its output streams, and may change its own state while doing so.
\<close>

subsection \<open>The string and array methods the module calls\<close>

text \<open>
  Strings are lists of code units below 256. \<^verbatim>\<open>String.prototype.includes\<close> is the
  contiguous-substring test.
\<close>

primrec js_includes :: "string \<Rightarrow> string \<Rightarrow> bool" where
  "js_includes [] v = (v = [])"
| "js_includes (c # cs) v = (prefix v (c # cs) \<or> js_includes cs v)"

text \<open>
  The white space and line terminators of ECMAScript in this range: TAB, LF, VT, FF, CR,
  SP and NBSP. \<^verbatim>\<open>trim\<close> removes them at both ends.
\<close>

definition is_space :: "char \<Rightarrow> bool" where
  "is_space c = (c \<in> set [CHR 0x09, CHR 0x0A, CHR 0x0B, CHR 0x0C, CHR 0x0D, CHR 0x20, CHR 0xA0])"

definition js_trim :: "string \<Rightarrow> string" where
  "js_trim s = rev (dropWhile is_space (rev (dropWhile is_space s)))"

text \<open>
  \<^verbatim>\<open>s.split(sep)\<close> for a separator of one character: every occurrence of the separator
  ends a piece, so two separators in a row give an empty piece and the empty string
  gives one empty piece. \<open>cur\<close> is the piece being read.
\<close>

fun split_from :: "char \<Rightarrow> string \<Rightarrow> string \<Rightarrow> string list" where
  "split_from sep cur [] = [cur]"
| "split_from sep cur (c # cs) =
     (if c = sep then cur # split_from sep [] cs else split_from sep (cur @ [c]) cs)"

definition js_split :: "char \<Rightarrow> string \<Rightarrow> string list" where
  "js_split sep s = split_from sep [] s"

text \<open>\<^verbatim>\<open>Array.prototype.join\<close>; \<^verbatim>\<open>toString\<close> of an array is \<^verbatim>\<open>join(',')\<close>.\<close>

fun js_join :: "string \<Rightarrow> string list \<Rightarrow> string" where
  "js_join sep [] = []"
| "js_join sep [x] = x"
| "js_join sep (x # y # ys) = x @ sep @ js_join sep (y # ys)"

text \<open>\<^verbatim>\<open>xs.slice(0, -2)\<close>: all but the last two elements, nothing when there are fewer.\<close>

definition slice_0_minus2 :: "'a list \<Rightarrow> 'a list" where
  "slice_0_minus2 xs = take (length xs - 2) xs"

text \<open>
  POSIX \<^verbatim>\<open>path.basename\<close> with one argument: trailing slashes are skipped, then the
  characters back to the previous slash are the result.
\<close>

definition basename :: "string \<Rightarrow> string" where
  "basename p = rev (takeWhile (\<lambda>c. c \<noteq> CHR ''/'') (dropWhile (\<lambda>c. c = CHR ''/'') (rev p)))"

text \<open>The decimal digits of an array index, for the template literal \<^verbatim>\<open>`${index}`\<close>.\<close>

fun decimal :: "nat \<Rightarrow> string" where
  "decimal n =
     (if n < 10 then [''0123456789'' ! n] else decimal (n div 10) @ [''0123456789'' ! (n mod 10)])"

subsection \<open>Errors, tool results and the host\<close>

text \<open>
  The values the module throws or receives as rejections: \<^verbatim>\<open>new Error(message)\<close>, the
  engine's \<^verbatim>\<open>TypeError\<close> on a property read of \<^verbatim>\<open>undefined\<close>, and the error with which
  \<^verbatim>\<open>exec\<close> rejects when a command cannot be spawned or exits with a non-zero status.
\<close>

datatype js_error = Error string | TypeError string | ExecError string

fun message :: "js_error \<Rightarrow> string" where
  "message (Error m) = m"
| "message (TypeError m) = m"
| "message (ExecError m) = m"

record exec_out =
  stdout :: string
  stderr :: string

text \<open>
  One constructor for each command line the module builds, with the values it
  interpolates, in the order of the template:
  \<^item> \<open>Unzip archiveFilePath apath\<close>: \<^verbatim>\<open>mkdir -p ${apath} && unzip -q ${archiveFilePath} -d ${apath}\<close>
  \<^item> \<open>Find apath pattern\<close>: \<^verbatim>\<open>find ${apath} -iname '<pattern>'\<close>
  \<^item> \<open>ExportArchive element exportPath plist\<close>: \<^verbatim>\<open>xcodebuild -exportArchive -archivePath
    ${element} -exportPath ... -exportOptionsPlist ...\<close>
  \<^item> \<open>ZipDelivery apath fileName items\<close>: \<^verbatim>\<open>cd ${apath} && zip -6rq -n 'ipa' ${fileName}
    ${items} && echo 'OK' || echo 'FAIL'\<close>
  \<^item> \<open>ZipInline deliveryFile items\<close>: \<^verbatim>\<open>zip -6rq -n 'ipa' ${deliveryFile} ${items} &&
    echo 'OK' || echo 'FAIL'\<close>, the command of the older signxcarchive
  \<^item> \<open>FindIdentity\<close>: \<^verbatim>\<open>security find-identity -p codesigning -v\<close>
  \<^item> \<open>CodesignAuthority apath\<close>: \<^verbatim>\<open>cd "${apath}" && codesign -d --verbose=4 Payload/*.app
    2>&1 | grep 'Authority' | head -1 | awk -F '=' '{ print $2 }'\<close>
  \<^item> \<open>UnzipIpa value out\<close>: \<^verbatim>\<open>mkdir -p "${out}" && unzip -q "${value}" -d "${out}"\<close>
  \<^item> \<open>Resign out signingIdentifier outFileName apath\<close>: \<^verbatim>\<open>cd "${out}" && rm -rf
    Payload/*.app/_CodeSignature && codesign -f -s "${signingIdentifier}" Payload/*.app &&
    zip -qr "${outFileName}" * && mv "${outFileName}" "${apath}"\<close>
\<close>

datatype command =
    Unzip string string
  | Find string string
  | ExportArchive string string string
  | ZipDelivery string string string
  | ZipInline string string
  | FindIdentity
  | CodesignAuthority string
  | UnzipIpa string string
  | Resign string string string string

text \<open>
  The host: \<open>exec\<close> answers a command in the host's current state, \<open>generate\<close> is
  \<^verbatim>\<open>shortid.generate()\<close>, and \<open>path_join\<close> is Node's \<^verbatim>\<open>path.join\<close>, a pure function
  whose normalisation no decision of the module depends on.
\<close>

record 'w host =
  exec :: "command \<Rightarrow> 'w \<Rightarrow> (js_error + exec_out) \<times> 'w"
  generate :: "'w \<Rightarrow> string \<times> 'w"
  path_join :: "string list \<Rightarrow> string"

text \<open>
  What a run has done so far: the host's state, the commands spawned, in order and
  each with the host's answer, and the lines written with \<^verbatim>\<open>console.log\<close> and with
  \<^verbatim>\<open>logger.error\<close>.
\<close>

record 'w state =
  world :: 'w
  spawned :: "(command \<times> (js_error + exec_out)) list"
  console :: "string list"
  logger :: "string list"

type_synonym ('a, 'w) task = "'w state \<Rightarrow> (js_error + 'a) \<times> 'w state"

text \<open>
  \<open>await m f\<close> is \<^verbatim>\<open>const x = await m; f(x)\<close> inside an async function: a rejection
  of \<open>m\<close> is thrown at the await and ends the continuation.
\<close>

definition resolve :: "'a \<Rightarrow> ('a, 'w) task" where
  "resolve a s = (Inr a, s)"

definition throw :: "js_error \<Rightarrow> ('a, 'w) task" where
  "throw e s = (Inl e, s)"

definition await :: "('a, 'w) task \<Rightarrow> ('a \<Rightarrow> ('b, 'w) task) \<Rightarrow> ('b, 'w) task" where
  "await m f s = (case m s of (Inl e, s') \<Rightarrow> (Inl e, s') | (Inr a, s') \<Rightarrow> f a s')"

definition exec_cmd :: "'w host \<Rightarrow> command \<Rightarrow> (exec_out, 'w) task" where
  "exec_cmd h c s =
     (case exec h c (world s) of
        (r, w') \<Rightarrow> (r, s\<lparr>world := w', spawned := spawned s @ [(c, r)]\<rparr>))"

definition shortid_generate :: "'w host \<Rightarrow> (string, 'w) task" where
  "shortid_generate h s = (case generate h (world s) of (i, w') \<Rightarrow> (Inr i, s\<lparr>world := w'\<rparr>))"

subsection \<open>Signing identity resolution\<close>

definition currentValidSigningIdentities :: "'w host \<Rightarrow> (string list, 'w) task" where
  "currentValidSigningIdentities h =
     await (exec_cmd h FindIdentity) (\<lambda>r.
       resolve (map (\<lambda>item. drop 3 (js_trim item))
                  (slice_0_minus2 (js_split (CHR 0x0A) (stdout r)))))"

definition extractCurrentSigningIdentifier :: "'w host \<Rightarrow> string \<Rightarrow> (string, 'w) task" where
  "extractCurrentSigningIdentifier h apath =
     await (exec_cmd h (CodesignAuthority apath)) (\<lambda>r.
       await (currentValidSigningIdentities h) (\<lambda>_.
         resolve (js_trim (stdout r))))"

text \<open>
  The decision of uniqueSigningIdentifierForValue on the list it fetched.
  \<^verbatim>\<open>cids.find(...)\<close> is the first matching entry or \<^verbatim>\<open>undefined\<close>, and reading
  \<^verbatim>\<open>.length\<close> of \<^verbatim>\<open>undefined\<close> throws a TypeError (V8's wording of the message is
  the one of the Node releases of 2018). The result \<open>None\<close> is \<^verbatim>\<open>undefined\<close>.
\<close>

definition selectIdentifier :: "string list \<Rightarrow> string \<Rightarrow> js_error + string option" where
  "selectIdentifier cids v =
     (case find (\<lambda>item. js_includes item v) cids of
        None \<Rightarrow> Inl (TypeError ''Cannot read property 'length' of undefined'')
      | Some matches \<Rightarrow>
          if length matches = 0 then Inr None
          else Inr (Some (js_trim (hd (js_split (CHR '' '') matches)))))"

definition uniqueSigningIdentifierForValue :: "'w host \<Rightarrow> string \<Rightarrow> (string option, 'w) task" where
  "uniqueSigningIdentifierForValue h v =
     await (currentValidSigningIdentities h) (\<lambda>cids. \<lambda>s. (selectIdentifier cids v, s))"

subsection \<open>Extraction and packaging\<close>

definition extractArchiveContents :: "'w host \<Rightarrow> string \<Rightarrow> string \<Rightarrow> (string, 'w) task" where
  "extractArchiveContents h archiveFilePath workspace =
     await (shortid_generate h) (\<lambda>sid.
       let apath = path_join h [workspace, sid] in
       await (exec_cmd h (Unzip archiveFilePath apath)) (\<lambda>_. resolve apath))"

definition packageForDelivery :: "'w host \<Rightarrow> string \<Rightarrow> string list \<Rightarrow> (string, 'w) task" where
  "packageForDelivery h apath items =
     await (shortid_generate h) (\<lambda>sid.
       let fileName = sid @ ''.zip'' in
       await (exec_cmd h (ZipDelivery apath fileName (js_join '' '' (map basename items))))
         (\<lambda>zipResult.
           if stderr zipResult \<noteq> [] \<or> js_includes (stdout zipResult) ''FAIL''
           then throw (Error ''Unable to create delivery package'')
           else resolve (path_join h [apath, fileName])))"

subsection \<open>The xcarchive pipeline\<close>

text \<open>
  \<^verbatim>\<open>findResult.stdout.trim().split('\n').map(async element => exec(...))\<close> spawns one
  export for each element, in order, and \<^verbatim>\<open>Promise.all\<close> waits for them: it fulfils
  with the results in the order of the elements, and rejects when one of them rejects.
  The children are answered here in the order they were spawned; when several reject,
  the reason kept is the one of the first in that order (which one finishes first is
  not modelled; signxcarchive only logs its message).
\<close>

fun exec_all :: "'w host \<Rightarrow> command list \<Rightarrow> (exec_out list, 'w) task" where
  "exec_all h [] s = (Inr [], s)"
| "exec_all h (c # cs) s =
     (case exec_cmd h c s of
        (r, s1) \<Rightarrow>
          (case exec_all h cs s1 of
             (rs, s2) \<Rightarrow>
               (case r of
                  Inl e \<Rightarrow> (Inl e, s2)
                | Inr a \<Rightarrow> (case rs of Inl e \<Rightarrow> (Inl e, s2) | Inr as \<Rightarrow> (Inr (a # as), s2)))))"

definition export_command :: "'w host \<Rightarrow> string \<Rightarrow> string \<Rightarrow> command" where
  "export_command h apath element =
     ExportArchive element
       (path_join h [apath, ''signed'', hd (js_split (CHR ''.'') (basename element))])
       (path_join h [apath, ''options.plist''])"

text \<open>
  The \<^verbatim>\<open>response.forEach\<close> loop: \<open>items\<close> is the array pushed to, and the throw
  inside the callback ends the loop.
\<close>

fun collectItems :: "exec_out list \<Rightarrow> string list \<Rightarrow> js_error + string list" where
  "collectItems [] items = Inr items"
| "collectItems (v # rest) items =
     (if js_includes (stdout v) ''EXPORT SUCCEEDED'' then
        (let lines = js_split (CHR 0x0A) (js_trim (stdout v));
             components = js_split (CHR '' '') (hd lines)
         in if length components \<noteq> 4
            then Inl (Error ''Unexpected response from archive export'')
            else collectItems rest (items @ [last components]))
      else collectItems rest items)"

text \<open>How a promise ends: fulfilled with a value, or rejected with a reason, which
  is \<^verbatim>\<open>undefined\<close> (\<open>None\<close>) for \<^verbatim>\<open>Promise.reject()\<close>.\<close>

datatype 'a settled = Fulfilled 'a | RejectedWith "js_error option"

fun settle :: "(js_error + 'a) \<times> 'w state \<Rightarrow> 'a settled \<times> 'w state" where
  "settle (Inl e, s) = (RejectedWith (Some e), s)"
| "settle (Inr a, s) = (Fulfilled a, s)"

text \<open>The default value of the parameter \<^verbatim>\<open>workspace = '/tmp/'\<close>.\<close>

fun workspace_or_default :: "string option \<Rightarrow> string" where
  "workspace_or_default None = ''/tmp/''"
| "workspace_or_default (Some w) = w"

text \<open>
  The older signxcarchive (utils.js lines 32 to 91): every stage is awaited inside the
  \<^verbatim>\<open>try\<close> block, the catch writes the message with \<^verbatim>\<open>logger.error\<close>, and the function
  then returns \<^verbatim>\<open>Promise.reject()\<close>. \<open>zip_inline\<close> is its last stage (lines 75 to 85):
  the template literal \<^verbatim>\<open>${items}\<close> is the array's \<^verbatim>\<open>toString()\<close>.
\<close>

definition zip_inline :: "'w host \<Rightarrow> string \<Rightarrow> string list \<Rightarrow> (string, 'w) task" where
  "zip_inline h apath items =
     await (shortid_generate h) (\<lambda>zid.
       let deliveryFile = path_join h [apath, zid @ ''.zip''] in
       await (exec_cmd h (ZipInline deliveryFile (js_join '','' items))) (\<lambda>zipResult.
         if stderr zipResult \<noteq> [] \<or> js_includes (stdout zipResult) ''FAIL''
         then throw (Error ''Unable to create delivery package'')
         else resolve deliveryFile))"

definition signxcarchive_inline_try :: "'w host \<Rightarrow> string \<Rightarrow> string \<Rightarrow> (string, 'w) task" where
  "signxcarchive_inline_try h archiveFilePath workspace =
     await (shortid_generate h) (\<lambda>sid.
       let apath = path_join h [workspace, sid] in
       await (exec_cmd h (Unzip archiveFilePath apath)) (\<lambda>_.
       await (exec_cmd h (Find apath ''*.xcarchive'')) (\<lambda>findResult.
         if stderr findResult \<noteq> []
         then throw (Error ''Unable to find xcarchive(s) in package'')
         else
           await (exec_all h (map (export_command h apath)
                    (js_split (CHR 0x0A) (js_trim (stdout findResult))))) (\<lambda>response.
           await (\<lambda>s. (collectItems response [], s)) (\<lambda>items.
             zip_inline h apath items)))))"

definition signxcarchive_inline ::
  "'w host \<Rightarrow> string \<Rightarrow> string option \<Rightarrow> 'w state \<Rightarrow> string settled \<times> 'w state" where
  "signxcarchive_inline h archiveFilePath workspace s =
     (case signxcarchive_inline_try h archiveFilePath (workspace_or_default workspace) s of
        (Inr deliveryFile, s1) \<Rightarrow> (Fulfilled deliveryFile, s1)
      | (Inl error, s1) \<Rightarrow> (RejectedWith None, s1\<lparr>logger := logger s1 @ [message error]\<rparr>))"

text \<open>
  The newer signxcarchive (utils.js lines 204 to 246). Inside the \<^verbatim>\<open>try\<close> block it
  awaits extraction, the search and the exports, runs the \<^verbatim>\<open>forEach\<close> loop, and then
  calls packageForDelivery without awaiting it and returns the promise: the block is
  left before that promise settles, so the caller's promise takes whatever state the
  packaging promise reaches. \<open>signxcarchive_try\<close> is the awaited part; it hands over
  the two arguments of the packaging call.
\<close>

definition signxcarchive_try ::
  "'w host \<Rightarrow> string \<Rightarrow> string \<Rightarrow> (string \<times> string list, 'w) task" where
  "signxcarchive_try h archiveFilePath workspace =
     (let outputDir = ''signed'' in
      await (extractArchiveContents h archiveFilePath workspace) (\<lambda>apath.
      await (exec_cmd h (Find apath ''*.xcarchive'')) (\<lambda>findResult.
        if stderr findResult \<noteq> []
        then throw (Error ''Unable to find xcarchive(s) in package'')
        else
          await (exec_all h (map (export_command h apath)
                   (js_split (CHR 0x0A) (js_trim (stdout findResult))))) (\<lambda>response.
          await (\<lambda>s. (collectItems response [], s)) (\<lambda>items.
            resolve (path_join h [apath, outputDir], items))))))"

definition signxcarchive ::
  "'w host \<Rightarrow> string \<Rightarrow> string option \<Rightarrow> 'w state \<Rightarrow> string settled \<times> 'w state" where
  "signxcarchive h archiveFilePath workspace s =
     (case signxcarchive_try h archiveFilePath (workspace_or_default workspace) s of
        (Inr (dir, items), s1) \<Rightarrow> settle (packageForDelivery h dir items s1)
      | (Inl error, s1) \<Rightarrow> (RejectedWith None, s1\<lparr>console := console s1 @ [message error]\<rparr>))"

subsection \<open>The ipa pipeline\<close>

text \<open>\<^verbatim>\<open>!signingIdentifier\<close>: true of \<^verbatim>\<open>undefined\<close> and of the empty string.\<close>

fun falsy :: "string option \<Rightarrow> bool" where
  "falsy None = True"
| "falsy (Some v) = (v = [])"

text \<open>
  The \<^verbatim>\<open>for\<close> loop of signipaarchive from \<open>index\<close> on, over the rest of
  \<^verbatim>\<open>results\<close>; \<open>items\<close> is the array before \<^verbatim>\<open>items.push(outFileName)\<close> and
  \<open>pushed\<close> the array after it; the array is returned when the loop ends.
\<close>

fun resign_each ::
  "'w host \<Rightarrow> string \<Rightarrow> string \<Rightarrow> nat \<Rightarrow> string list \<Rightarrow> string list \<Rightarrow> (string list, 'w) task" where
  "resign_each h apath outBasePath index [] items = resolve items"
| "resign_each h apath outBasePath index (v # rest) items =
     (let out = path_join h [outBasePath, decimal index];
          outFileName = basename (js_trim v);
          pushed = items @ [outFileName]
      in
      await (exec_cmd h (UnzipIpa (js_trim v) out)) (\<lambda>_.
      await (extractCurrentSigningIdentifier h out) (\<lambda>certIdentifier.
      await (uniqueSigningIdentifierForValue h certIdentifier) (\<lambda>signingIdentifier.
        if falsy signingIdentifier
        then throw (Error ''No match to current signing identity'')
        else
          await (exec_cmd h (Resign out (the signingIdentifier) outFileName apath)) (\<lambda>_.
            resign_each h apath outBasePath (Suc index) rest pushed)))))"

definition located_ipas :: "string \<Rightarrow> string list" where
  "located_ipas out =
     filter (\<lambda>item. item \<noteq> [] \<and> \<not> js_includes item ''__MACOSX'') (js_split (CHR 0x0A) out)"

definition signipaarchive ::
  "'w host \<Rightarrow> string \<Rightarrow> string option \<Rightarrow> 'w state \<Rightarrow> string settled \<times> 'w state" where
  "signipaarchive h archiveFilePath workspace s =
     settle
       ((let outputDir = ''signed'' in
         await (extractArchiveContents h archiveFilePath (workspace_or_default workspace)) (\<lambda>apath.
           let outBasePath = path_join h [apath, outputDir] in
           await (exec_cmd h (Find apath ''*.ipa'')) (\<lambda>findResult.
             if stderr findResult \<noteq> []
             then throw (Error ''Unable to find xcarchive(s) in package'')
             else
               await (resign_each h apath outBasePath 0 (located_ipas (stdout findResult)) [])
                 (\<lambda>items. packageForDelivery h apath items)))) s)"

subsection \<open>Vocabulary of the properties\<close>

text \<open>
  What the \<^verbatim>\<open>forEach\<close> callback reads off one export result: whether the output has
  the success marker, the pieces of \<^verbatim>\<open>stdout.trim().split('\n')[0].split(' ')\<close>, and
  the last of them.
\<close>

definition reports_success :: "exec_out \<Rightarrow> bool" where
  "reports_success v = js_includes (stdout v) ''EXPORT SUCCEEDED''"

definition first_line_components :: "exec_out \<Rightarrow> string list" where
  "first_line_components v =
     js_split (CHR '' '') (hd (js_split (CHR 0x0A) (js_trim (stdout v))))"

definition artifact_path :: "exec_out \<Rightarrow> string" where
  "artifact_path v = last (first_line_components v)"

text \<open>
  Splitting at white space as the specification words it: the tokens of a line are its
  maximal runs of characters that are not white space. This is the reading the module's
  \<^verbatim>\<open>split(' ')\<close> is compared with.
\<close>

fun tokens_from :: "string \<Rightarrow> string \<Rightarrow> string list" where
  "tokens_from cur [] = (if cur = [] then [] else [cur])"
| "tokens_from cur (c # cs) =
     (if is_space c then (if cur = [] then tokens_from [] cs else cur # tokens_from [] cs)
      else tokens_from (cur @ [c]) cs)"

definition whitespace_tokens :: "string \<Rightarrow> string list" where
  "whitespace_tokens s = tokens_from [] s"






subsection \<open>Scripted hosts for the concrete runs\<close>

text \<open>
  A scripted host answers by the kind of command alone and keeps a counter for
  \<^verbatim>\<open>shortid.generate()\<close>, so the identifiers of a run are \<open>id0\<close>, \<open>id1\<close>, ...
  Its \<open>path_join\<close> skips the empty segments and puts a slash between the others,
  which is what \<^verbatim>\<open>path.join\<close> returns for the segments of these runs.
\<close>

record answers =
  extracted :: "js_error + exec_out"
  found :: string
  exported :: "string \<Rightarrow> string"
  authority :: string
  identities :: string
  zipped :: string

definition ok :: "string \<Rightarrow> js_error + exec_out" where
  "ok out = Inr \<lparr>stdout = out, stderr = []\<rparr>"

definition scripted_exec :: "answers \<Rightarrow> command \<Rightarrow> js_error + exec_out" where
  "scripted_exec a c =
     (case c of
        Unzip archiveFilePath apath \<Rightarrow> extracted a
      | Find apath pattern \<Rightarrow> ok (found a)
      | ExportArchive element exportPath plist \<Rightarrow> ok (exported a element)
      | ZipDelivery apath fileName items \<Rightarrow> ok (zipped a)
      | ZipInline deliveryFile items \<Rightarrow> ok (zipped a)
      | FindIdentity \<Rightarrow> ok (identities a)
      | CodesignAuthority apath \<Rightarrow> ok (authority a)
      | UnzipIpa v out \<Rightarrow> ok []
      | Resign out signingIdentifier outFileName apath \<Rightarrow> ok [])"

definition scripted :: "answers \<Rightarrow> nat host" where
  "scripted a =
     \<lparr>exec = (\<lambda>c w. (scripted_exec a c, w)),
      generate = (\<lambda>w. (''id'' @ decimal w, Suc w)),
      path_join = (\<lambda>segments. js_join ''/'' (filter (\<lambda>p. p \<noteq> []) segments))\<rparr>"

definition start :: "nat state" where
  "start = \<lparr>world = 0, spawned = [], console = [], logger = []\<rparr>"

text \<open>What \<^verbatim>\<open>security find-identity -p codesigning -v\<close> prints for one identity.\<close>

definition one_identity :: string where
  "one_identity =
     ''  1) 0123456789ABCDEF0123456789ABCDEF01234567 \"Apple Distribution: Example Org (ABCDE12345)\"''
     @ [CHR 0x0A] @ ''     1 valid identities found'' @ [CHR 0x0A]"

text \<open>
  The same for ten identities; the tool right-aligns the index in three columns, so the
  tenth line starts with one space.
\<close>

definition ten_identities :: string where
  "ten_identities =
     ''  1) 11111111 \"Apple Development: Dev One (AAAAAAAAA1)\"'' @ [CHR 0x0A] @
     ''  2) 22222222 \"Apple Development: Dev Two (AAAAAAAAA2)\"'' @ [CHR 0x0A] @
     ''  3) 33333333 \"Apple Development: Dev Three (AAAAAAAAA3)\"'' @ [CHR 0x0A] @
     ''  4) 44444444 \"Apple Development: Dev Four (AAAAAAAAA4)\"'' @ [CHR 0x0A] @
     ''  5) 55555555 \"Apple Development: Dev Five (AAAAAAAAA5)\"'' @ [CHR 0x0A] @
     ''  6) 66666666 \"Apple Development: Dev Six (AAAAAAAAA6)\"'' @ [CHR 0x0A] @
     ''  7) 77777777 \"Apple Development: Dev Seven (AAAAAAAAA7)\"'' @ [CHR 0x0A] @
     ''  8) 88888888 \"Apple Development: Dev Eight (AAAAAAAAA8)\"'' @ [CHR 0x0A] @
     ''  9) 99999999 \"Apple Development: Dev Nine (AAAAAAAAA9)\"'' @ [CHR 0x0A] @
     '' 10) 0123456789ABCDEF0123456789ABCDEF01234567 \"Apple Distribution: Example Org (ABCDE12345)\"'' @ [CHR 0x0A] @
     ''     10 valid identities found'' @ [CHR 0x0A]"

text \<open>An upload with one ipa, \<^verbatim>\<open>App.ipa\<close>, whose bundle names the given authority.\<close>

definition ipa_upload :: "string \<Rightarrow> string \<Rightarrow> answers" where
  "ipa_upload auth ids =
     \<lparr>extracted = ok [],
      found = ''/tmp/id0/App.ipa'' @ [CHR 0x0A],
      exported = (\<lambda>element. []),
      authority = auth @ [CHR 0x0A],
      identities = ids,
      zipped = ''OK'' @ [CHR 0x0A]\<rparr>"

text \<open>What \<^verbatim>\<open>xcodebuild -exportArchive\<close> prints when it has exported to \<open>path\<close>.\<close>

definition export_succeeded :: "string \<Rightarrow> string" where
  "export_succeeded path =
     ''Exported App to: '' @ path @ [CHR 0x0A] @ ''** EXPORT SUCCEEDED **'' @ [CHR 0x0A]"

text \<open>
  An upload with the archives whose paths \<open>out\<close> lists; \<open>answer\<close> is what the export of
  each prints and \<open>packed\<close> what the packaging command prints.
\<close>

definition xcarchive_upload :: "string \<Rightarrow> (string \<Rightarrow> string) \<Rightarrow> string \<Rightarrow> answers" where
  "xcarchive_upload out answer packed =
     \<lparr>extracted = ok [],
      found = out,
      exported = answer,
      authority = [],
      identities = one_identity,
      zipped = packed\<rparr>"

text \<open>The archives \<^verbatim>\<open>A.xcarchive\<close> and \<^verbatim>\<open>B.xcarchive\<close>; only the export of A succeeds.\<close>

definition a_and_b :: string where
  "a_and_b = ''/tmp/id0/A.xcarchive'' @ [CHR 0x0A] @ ''/tmp/id0/B.xcarchive'' @ [CHR 0x0A]"

definition only_a_exports :: "string \<Rightarrow> string" where
  "only_a_exports element =
     (if element = ''/tmp/id0/A.xcarchive'' then export_succeeded ''/tmp/id0/signed/A/App.ipa''
      else ''error: exportArchive: No applicable devices found.'' @ [CHR 0x0A])"

text \<open>
  The same two archives when the export of B reports success with a first line of five
  pieces (the name of the application has a space).
\<close>

definition b_exports_malformed :: "string \<Rightarrow> string" where
  "b_exports_malformed element =
     (if element = ''/tmp/id0/A.xcarchive'' then export_succeeded ''/tmp/id0/signed/A/App.ipa''
      else ''Exported My App to: /tmp/id0/signed/B/MyApp.ipa'' @ [CHR 0x0A] @
           ''** EXPORT SUCCEEDED **'' @ [CHR 0x0A])"

text \<open>
  A successful report whose first line has a TAB between its first two words: five
  tokens when split at white space, four pieces when split at the space character.
\<close>

definition tabbed_report :: string where
  "tabbed_report =
     ''Exported'' @ [CHR 0x09] @ ''My App to: /tmp/id0/signed/A/App.ipa'' @ [CHR 0x0A] @
     ''** EXPORT SUCCEEDED **'' @ [CHR 0x0A]"

text \<open>A successful report that starts with an empty line.\<close>

definition blank_first_report :: string where
  "blank_first_report = [CHR 0x0A] @ export_succeeded ''/tmp/id0/signed/A/App.ipa''"

text \<open>A successful report whose artifact has a TAB in its file name.\<close>

definition tab_in_path_report :: string where
  "tab_in_path_report =
     ''Exported App to: /tmp/id0/signed/A/My'' @ [CHR 0x09] @ ''App.ipa'' @ [CHR 0x0A] @
     ''** EXPORT SUCCEEDED **'' @ [CHR 0x0A]"

definition only_a :: string where
  "only_a = ''/tmp/id0/A.xcarchive'' @ [CHR 0x0A]"

text \<open>
  What \<^verbatim>\<open>find\<close> prints for an upload zipped on macOS: next to each bundle the archive
  holds a resource-fork shadow of the same name under \<^verbatim>\<open>__MACOSX\<close>.
\<close>

definition shadowed_xcarchives :: string where
  "shadowed_xcarchives =
     ''/tmp/id0/A.xcarchive'' @ [CHR 0x0A] @ ''/tmp/id0/__MACOSX/A.xcarchive'' @ [CHR 0x0A]"

definition shadowed_ipas :: string where
  "shadowed_ipas =
     ''/tmp/id0/App.ipa'' @ [CHR 0x0A] @ ''/tmp/id0/__MACOSX/._App.ipa'' @ [CHR 0x0A]"

text \<open>Both exports succeed, each into the directory named after its archive.\<close>

definition both_export :: "string \<Rightarrow> string" where
  "both_export element =
     (if element = ''/tmp/id0/A.xcarchive'' then export_succeeded ''/tmp/id0/signed/A''
      else export_succeeded ''/tmp/id0/signed/B'')"


text \<open>An upload that \<^verbatim>\<open>unzip\<close> cannot read: the extraction command exits with an error.\<close>

definition broken_upload :: answers where
  "broken_upload =
     \<lparr>extracted = Inl (ExecError ''Command failed: unzip -q /uploads/app.zip''),
      found = [],
      exported = (\<lambda>element. []),
      authority = [],
      identities = one_identity,
      zipped = ''OK'' @ [CHR 0x0A]\<rparr>"

section \<open>Properties\<close>

subsection \<open>The string methods\<close>

lemma js_includes_sublist: "js_includes s v \<longleftrightarrow> sublist v s"
  by (induction s) (auto simp: sublist_Cons_right)

lemma js_includes_empty: "js_includes s []"
  by (cases s) simp_all

lemma split_from_nonempty: "split_from sep cur s \<noteq> []"
  by (induction s arbitrary: cur) simp_all

lemma js_split_nonempty: "js_split sep s \<noteq> []"
  by (simp add: js_split_def split_from_nonempty)

lemma basename_no_slash: "CHR ''/'' \<notin> set (basename p)"
  by (auto simp: basename_def dest: set_takeWhileD)

lemma basename_idem: "basename (basename p) = basename p"
proof -
  have keep: "takeWhile (\<lambda>c. c \<noteq> CHR ''/'') (rev (basename p)) = rev (basename p)"
    using basename_no_slash[of p] by (auto simp: takeWhile_eq_all_conv)
  have drop: "dropWhile (\<lambda>c. c = CHR ''/'') (rev (basename p)) = rev (basename p)"
    using basename_no_slash[of p] by (cases "rev (basename p)") auto
  have "basename (basename p) =
      rev (takeWhile (\<lambda>c. c \<noteq> CHR ''/'') (dropWhile (\<lambda>c. c = CHR ''/'') (rev (basename p))))"
    by (rule basename_def)
  also have "\<dots> = rev (takeWhile (\<lambda>c. c \<noteq> CHR ''/'') (rev (basename p)))"
    by (simp only: drop)
  also have "\<dots> = rev (rev (basename p))"
    by (simp only: keep)
  finally show ?thesis by simp
qed

subsection \<open>Unfolding the tasks and the scripted hosts\<close>

lemmas task_defs = await_def resolve_def throw_def exec_cmd_def shortid_generate_def

lemmas string_defs = js_split_def js_trim_def is_space_def slice_0_minus2_def basename_def

lemmas script_defs = scripted_def scripted_exec_def ok_def start_def one_identity_def
  ipa_upload_def xcarchive_upload_def export_succeeded_def

lemmas ipa_defs = signipaarchive_def extractArchiveContents_def packageForDelivery_def
  currentValidSigningIdentities_def extractCurrentSigningIdentifier_def
  uniqueSigningIdentifierForValue_def selectIdentifier_def located_ipas_def

subsection \<open>Identity resolution\<close>

lemma selectIdentifier_no_match:
  "\<forall>item \<in> set cids. \<not> js_includes item v \<Longrightarrow>
   selectIdentifier cids v = Inl (TypeError ''Cannot read property 'length' of undefined'')"
proof -
  assume "\<forall>item \<in> set cids. \<not> js_includes item v"
  then have "find (\<lambda>item. js_includes item v) cids = None"
    by (simp add: find_None_iff)
  then show ?thesis by (simp add: selectIdentifier_def)
qed

lemma selectIdentifier_empty:
  "cids \<noteq> [] \<Longrightarrow> selectIdentifier cids [] =
     Inr (if hd cids = [] then None else Some (js_trim (hd (js_split (CHR '' '') (hd cids)))))"
  by (cases cids) (simp_all add: selectIdentifier_def js_includes_empty)

text \<open>
  Claim C1 (the code departs from it). When no valid identity contains the authority
  string of the bundle, uniqueSigningIdentifierForValue should return \<^verbatim>\<open>undefined\<close> and
  signipaarchive should fail with "No match to current signing identity". On the code,
  \<^verbatim>\<open>cids.find\<close> returns \<^verbatim>\<open>undefined\<close> and the read of \<^verbatim>\<open>matches.length\<close> throws: for a
  host with one valid identity and a bundle signed by somebody else, the resolver
  rejects with a TypeError and so does the whole run.
\<close>

theorem no_matching_identity_raises_TypeError:
  "fst (uniqueSigningIdentifierForValue (scripted (ipa_upload [] one_identity))
          ''Apple Development: Someone Else (ZZZZZ99999)'' start) =
     Inl (TypeError ''Cannot read property 'length' of undefined'')
   \<and> fst (signipaarchive
          (scripted (ipa_upload ''Apple Development: Someone Else (ZZZZZ99999)'' one_identity))
          ''/uploads/app.zip'' (Some ''/tmp'') start) =
     RejectedWith (Some (TypeError ''Cannot read property 'length' of undefined''))"
  by (simp add: task_defs string_defs script_defs ipa_defs Let_def)

text \<open>
  Claim C2 as stated fails: every string contains the empty string, so for an unsigned
  bundle (empty authority string) the resolver matches the first entry of the list. On
  the host with one valid identity it returns that identity's hash.
\<close>

theorem empty_authority_counterexample:
  "fst (currentValidSigningIdentities (scripted (ipa_upload [] one_identity)) start) =
     Inr [''0123456789ABCDEF0123456789ABCDEF01234567 \"Apple Distribution: Example Org (ABCDE12345)\"'']
   \<and> fst (uniqueSigningIdentifierForValue (scripted (ipa_upload [] one_identity)) [] start) =
     Inr (Some ''0123456789ABCDEF0123456789ABCDEF01234567'')"
  by (simp add: task_defs string_defs script_defs ipa_defs)

text \<open>
  Claim C2, amended. Applied to the empty string, with a non-empty list of valid
  identities, uniqueSigningIdentifierForValue selects the first entry of the list: it
  returns the first piece of that entry up to a space, trimmed, and \<^verbatim>\<open>undefined\<close> only
  when that entry is itself empty.
\<close>

theorem empty_authority_selects_first_identity:
  "currentValidSigningIdentities h s = (Inr cids, s1) \<Longrightarrow> cids \<noteq> [] \<Longrightarrow>
   uniqueSigningIdentifierForValue h [] s =
     (Inr (if hd cids = [] then None
           else Some (js_trim (hd (js_split (CHR '' '') (hd cids))))), s1)"
  by (simp add: uniqueSigningIdentifierForValue_def await_def selectIdentifier_empty)

theorem empty_authority_selects_first_identity_witness:
  "uniqueSigningIdentifierForValue (scripted (ipa_upload [] one_identity)) [] start =
     (Inr (Some ''0123456789ABCDEF0123456789ABCDEF01234567''),
      snd (currentValidSigningIdentities (scripted (ipa_upload [] one_identity)) start))"
proof -
  let ?h = "scripted (ipa_upload [] one_identity)"
  let ?cids = "[''0123456789ABCDEF0123456789ABCDEF01234567 \"Apple Distribution: Example Org (ABCDE12345)\"'']"
  have listed: "currentValidSigningIdentities ?h start =
      (Inr ?cids, snd (currentValidSigningIdentities ?h start))"
    by (simp add: task_defs string_defs script_defs ipa_defs)
  have "?cids \<noteq> []" by simp
  from empty_authority_selects_first_identity[OF listed this]
  show ?thesis by (simp add: string_defs)
qed

subsection \<open>Error propagation in the ipa pipeline\<close>






















subsection \<open>The xcarchive pipeline after the exports\<close>

lemmas xc_defs = signxcarchive_def signxcarchive_try_def export_command_def
  extractArchiveContents_def packageForDelivery_def

lemma await_Inr: "m s = (Inr a, s1) \<Longrightarrow> await m f s = f a s1"
  by (simp add: await_def)


text \<open>
  The \<^verbatim>\<open>forEach\<close> loop in closed form: it throws exactly when some output with the
  marker has a first line that does not split into four pieces, and otherwise appends
  the last piece of each output with the marker, in order.
\<close>

lemma collectItems_char:
  "collectItems response items =
     (if \<forall>v \<in> set response. reports_success v \<longrightarrow> length (first_line_components v) = 4
      then Inr (items @ map artifact_path (filter reports_success response))
      else Inl (Error ''Unexpected response from archive export''))"
  by (induction response arbitrary: items)
     (auto simp: reports_success_def first_line_components_def artifact_path_def Let_def)

lemma signxcarchive_try_after_exports:
  assumes "extractArchiveContents h a w s = (Inr apath, s1)"
    and "exec_cmd h (Find apath ''*.xcarchive'') s1 = (Inr findResult, s2)"
    and "stderr findResult = []"
    and "exec_all h (map (export_command h apath)
           (js_split (CHR 0x0A) (js_trim (stdout findResult)))) s2 = (Inr response, s3)"
  shows "signxcarchive_try h a w s =
     (case collectItems response [] of
        Inl e \<Rightarrow> (Inl e, s3)
      | Inr items \<Rightarrow> (Inr (path_join h [apath, ''signed''], items), s3))"
  using assms
  by (simp add: signxcarchive_try_def Let_def await_Inr resolve_def throw_def await_def
      split: sum.splits)

lemma packageForDelivery_fulfilled:
  assumes "packageForDelivery h dir items s = (Inr p, s')"
  shows "\<exists>sid out. p = path_join h [dir, sid @ ''.zip''] \<and> spawned s' \<noteq> [] \<and>
     last (spawned s') =
       (ZipDelivery dir (sid @ ''.zip'') (js_join '' '' (map basename items)), Inr out)"
  using assms
  by (auto simp: packageForDelivery_def Let_def await_def shortid_generate_def exec_cmd_def
      resolve_def throw_def split: prod.splits sum.splits if_splits)

text \<open>
  Claim C4 as stated fails. The module reads the first line of the trimmed output and
  splits it at every single space character, not at white space. A successful report
  whose first line is \<^verbatim>\<open>Exported<TAB>My App to: /tmp/id0/signed/A/App.ipa\<close> has five
  tokens when split at white space, yet it has four pieces for \<^verbatim>\<open>split(' ')\<close>, and the
  run delivers. So does a successful report whose first line is empty and whose second
  line has the four pieces.
\<close>

theorem whitespace_split_counterexample:
  "reports_success \<lparr>stdout = tabbed_report, stderr = []\<rparr>
   \<and> whitespace_tokens (hd (js_split (CHR 0x0A) tabbed_report)) =
       [''Exported'', ''My'', ''App'', ''to:'', ''/tmp/id0/signed/A/App.ipa'']
   \<and> first_line_components \<lparr>stdout = tabbed_report, stderr = []\<rparr> =
       [''Exported'' @ [CHR 0x09] @ ''My'', ''App'', ''to:'', ''/tmp/id0/signed/A/App.ipa'']
   \<and> fst (signxcarchive
            (scripted (xcarchive_upload only_a (\<lambda>element. tabbed_report) (''OK'' @ [CHR 0x0A])))
            ''/uploads/archives.zip'' (Some ''/tmp'') start) =
       Fulfilled ''/tmp/id0/signed/id1.zip''
   \<and> reports_success \<lparr>stdout = blank_first_report, stderr = []\<rparr>
   \<and> whitespace_tokens (hd (js_split (CHR 0x0A) blank_first_report)) = []
   \<and> fst (signxcarchive
            (scripted (xcarchive_upload only_a (\<lambda>element. blank_first_report) (''OK'' @ [CHR 0x0A])))
            ''/uploads/archives.zip'' (Some ''/tmp'') start) =
       Fulfilled ''/tmp/id0/signed/id1.zip''"
  by (simp add: task_defs string_defs script_defs tabbed_report_def blank_first_report_def
      only_a_def xc_defs Let_def reports_success_def first_line_components_def
      whitespace_tokens_def)

text \<open>
  Claim C4, amended. When every export of the batch has resolved and the output of one
  of them contains \<^verbatim>\<open>EXPORT SUCCEEDED\<close> while the first line of its trimmed output does
  not split at single space characters into exactly four pieces, the whole run fails,
  whatever the other exports reported: the error "Unexpected response from archive
  export" is caught, its message is written to the console, and the caller gets a
  rejection without a reason.
\<close>

theorem malformed_success_fails_the_run:
  assumes "extractArchiveContents h a (workspace_or_default ws) s = (Inr apath, s1)"
    and "exec_cmd h (Find apath ''*.xcarchive'') s1 = (Inr findResult, s2)"
    and "stderr findResult = []"
    and "exec_all h (map (export_command h apath)
           (js_split (CHR 0x0A) (js_trim (stdout findResult)))) s2 = (Inr response, s3)"
    and "\<exists>v \<in> set response. reports_success v \<and> length (first_line_components v) \<noteq> 4"
  shows "signxcarchive h a ws s =
     (RejectedWith None,
      s3\<lparr>console := console s3 @ [''Unexpected response from archive export'']\<rparr>)"
proof -
  from assms(5) have "collectItems response [] =
      Inl (Error ''Unexpected response from archive export'')"
    by (auto simp: collectItems_char)
  with signxcarchive_try_after_exports[OF assms(1-4)]
  show ?thesis by (simp add: signxcarchive_def)
qed

theorem malformed_success_fails_the_run_witness:
  "fst (signxcarchive
         (scripted (xcarchive_upload a_and_b b_exports_malformed (''OK'' @ [CHR 0x0A])))
         ''/uploads/archives.zip'' (Some ''/tmp'') start) = RejectedWith None
   \<and> console (snd (signxcarchive
         (scripted (xcarchive_upload a_and_b b_exports_malformed (''OK'' @ [CHR 0x0A])))
         ''/uploads/archives.zip'' (Some ''/tmp'') start)) =
       [''Unexpected response from archive export'']"
proof -
  let ?h = "scripted (xcarchive_upload a_and_b b_exports_malformed (''OK'' @ [CHR 0x0A]))"
  let ?found = "\<lparr>stdout = a_and_b, stderr = []\<rparr>"
  let ?response = "[\<lparr>stdout = b_exports_malformed ''/tmp/id0/A.xcarchive'', stderr = []\<rparr>,
                    \<lparr>stdout = b_exports_malformed ''/tmp/id0/B.xcarchive'', stderr = []\<rparr>]"
  define s1 where "s1 = snd (extractArchiveContents ?h ''/uploads/archives.zip''
                               (workspace_or_default (Some ''/tmp'')) start)"
  define s2 where "s2 = snd (exec_cmd ?h (Find ''/tmp/id0'' ''*.xcarchive'') s1)"
  define s3 where "s3 = snd (exec_all ?h (map (export_command ?h ''/tmp/id0'')
                               (js_split (CHR 0x0A) (js_trim (stdout ?found)))) s2)"
  have h1: "extractArchiveContents ?h ''/uploads/archives.zip''
              (workspace_or_default (Some ''/tmp'')) start = (Inr ''/tmp/id0'', s1)"
    unfolding s1_def by (simp add: task_defs script_defs a_and_b_def b_exports_malformed_def extractArchiveContents_def Let_def)
  have h2: "exec_cmd ?h (Find ''/tmp/id0'' ''*.xcarchive'') s1 = (Inr ?found, s2)"
    unfolding s2_def by (simp add: task_defs script_defs a_and_b_def b_exports_malformed_def)
  have h3: "stderr ?found = []" by simp
  have h4: "exec_all ?h (map (export_command ?h ''/tmp/id0'')
              (js_split (CHR 0x0A) (js_trim (stdout ?found)))) s2 = (Inr ?response, s3)"
    unfolding s3_def by (simp add: task_defs string_defs script_defs a_and_b_def b_exports_malformed_def export_command_def)
  have h5: "\<exists>v \<in> set ?response. reports_success v \<and> length (first_line_components v) \<noteq> 4"
    by (simp add: string_defs script_defs a_and_b_def b_exports_malformed_def reports_success_def first_line_components_def)
  have "console s3 = []"
    unfolding s3_def s2_def s1_def
    by (simp add: task_defs string_defs script_defs a_and_b_def b_exports_malformed_def export_command_def
        extractArchiveContents_def Let_def)
  with malformed_success_fails_the_run[OF h1 h2 h3 h4 h5] show ?thesis by simp
qed

text \<open>
  Claim C5 as stated fails. The artifact the module collects is not the last token of
  the first output line: it is the last piece, split at single space characters, of
  the first line of the trimmed output. For a successful report whose artifact is
  \<^verbatim>\<open>/tmp/id0/signed/A/My<TAB>App.ipa\<close> the last token of the first line is
  \<^verbatim>\<open>App.ipa\<close>, while the run collects the whole path and asks \<^verbatim>\<open>zip\<close> for
  \<^verbatim>\<open>My<TAB>App.ipa\<close>; and for a successful report that starts with an empty line the
  first output line has no token at all, while the loop collects the artifact of the
  second line.
\<close>

theorem last_token_counterexample:
  "reports_success \<lparr>stdout = tab_in_path_report, stderr = []\<rparr>
   \<and> last (whitespace_tokens (hd (js_split (CHR 0x0A) tab_in_path_report))) = ''App.ipa''
   \<and> collectItems [\<lparr>stdout = tab_in_path_report, stderr = []\<rparr>] [] =
       Inr [''/tmp/id0/signed/A/My'' @ [CHR 0x09] @ ''App.ipa'']
   \<and> fst (signxcarchive
            (scripted (xcarchive_upload only_a (\<lambda>element. tab_in_path_report) (''OK'' @ [CHR 0x0A])))
            ''/uploads/archives.zip'' (Some ''/tmp'') start) =
       Fulfilled ''/tmp/id0/signed/id1.zip''
   \<and> fst (last (spawned (snd (signxcarchive
            (scripted (xcarchive_upload only_a (\<lambda>element. tab_in_path_report) (''OK'' @ [CHR 0x0A])))
            ''/uploads/archives.zip'' (Some ''/tmp'') start)))) =
       ZipDelivery ''/tmp/id0/signed'' ''id1.zip'' (''My'' @ [CHR 0x09] @ ''App.ipa'')
   \<and> reports_success \<lparr>stdout = blank_first_report, stderr = []\<rparr>
   \<and> whitespace_tokens (hd (js_split (CHR 0x0A) blank_first_report)) = []
   \<and> collectItems [\<lparr>stdout = blank_first_report, stderr = []\<rparr>] [] =
       Inr [''/tmp/id0/signed/A/App.ipa'']"
  by (simp add: task_defs string_defs script_defs tab_in_path_report_def blank_first_report_def
      only_a_def xc_defs Let_def reports_success_def whitespace_tokens_def)

text \<open>
  Claim C5, amended. In signxcarchive an export result whose output has no
  \<^verbatim>\<open>EXPORT SUCCEEDED\<close> is left out of the collected items and never raises an error (the
  loop throws only for an output with the marker whose first line is malformed); the
  items are the artifact paths of the successful exports in order, each the last piece,
  split at single space characters, of the first line of the export's trimmed output.
  When the run is fulfilled, the packaging command was given exactly the base names of
  those artifacts, and the path returned is that of the archive it wrote.
\<close>

theorem unsuccessful_exports_are_skipped:
  assumes "extractArchiveContents h a (workspace_or_default ws) s = (Inr apath, s1)"
    and "exec_cmd h (Find apath ''*.xcarchive'') s1 = (Inr findResult, s2)"
    and "stderr findResult = []"
    and "exec_all h (map (export_command h apath)
           (js_split (CHR 0x0A) (js_trim (stdout findResult)))) s2 = (Inr response, s3)"
  shows "collectItems response [] =
           (if \<forall>v \<in> set response. reports_success v \<longrightarrow> length (first_line_components v) = 4
            then Inr (map artifact_path (filter reports_success response))
            else Inl (Error ''Unexpected response from archive export''))
     \<and> (\<forall>p s'. signxcarchive h a ws s = (Fulfilled p, s') \<longrightarrow>
          (\<exists>fileName out.
             last (spawned s') =
               (ZipDelivery (path_join h [apath, ''signed'']) fileName
                  (js_join '' '' (map (basename \<circ> artifact_path) (filter reports_success response))),
                Inr out)
             \<and> p = path_join h [path_join h [apath, ''signed''], fileName]))"
proof (intro conjI allI impI)
  show "collectItems response [] =
           (if \<forall>v \<in> set response. reports_success v \<longrightarrow> length (first_line_components v) = 4
            then Inr (map artifact_path (filter reports_success response))
            else Inl (Error ''Unexpected response from archive export''))"
    by (simp add: collectItems_char)
next
  fix p s'
  assume fulfilled: "signxcarchive h a ws s = (Fulfilled p, s')"
  let ?items = "map artifact_path (filter reports_success response)"
  let ?dir = "path_join h [apath, ''signed'']"
  have awaited: "signxcarchive_try h a (workspace_or_default ws) s =
     (case collectItems response [] of
        Inl e \<Rightarrow> (Inl e, s3)
      | Inr items \<Rightarrow> (Inr (?dir, items), s3))"
    by (rule signxcarchive_try_after_exports[OF assms])
  have collected: "collectItems response [] = Inr ?items"
  proof (cases "collectItems response []")
    case (Inl e)
    with awaited fulfilled show ?thesis by (simp add: signxcarchive_def)
  next
    case (Inr items)
    then show ?thesis by (simp add: collectItems_char split: if_splits)
  qed
  with awaited fulfilled have "settle (packageForDelivery h ?dir ?items s3) = (Fulfilled p, s')"
    by (simp add: signxcarchive_def)
  then have "packageForDelivery h ?dir ?items s3 = (Inr p, s')"
    by (cases "packageForDelivery h ?dir ?items s3" rule: settle.cases) auto
  from packageForDelivery_fulfilled[OF this]
  show "\<exists>fileName out.
             last (spawned s') =
               (ZipDelivery ?dir fileName
                  (js_join '' '' (map (basename \<circ> artifact_path) (filter reports_success response))),
                Inr out)
             \<and> p = path_join h [?dir, fileName]"
    by auto
qed

theorem unsuccessful_exports_are_skipped_witness:
  "collectItems
     [\<lparr>stdout = only_a_exports ''/tmp/id0/A.xcarchive'', stderr = []\<rparr>,
      \<lparr>stdout = only_a_exports ''/tmp/id0/B.xcarchive'', stderr = []\<rparr>] [] =
     Inr [''/tmp/id0/signed/A/App.ipa'']
   \<and> fst (signxcarchive
            (scripted (xcarchive_upload a_and_b only_a_exports (''OK'' @ [CHR 0x0A])))
            ''/uploads/archives.zip'' (Some ''/tmp'') start) =
       Fulfilled ''/tmp/id0/signed/id1.zip''
   \<and> fst (last (spawned (snd (signxcarchive
            (scripted (xcarchive_upload a_and_b only_a_exports (''OK'' @ [CHR 0x0A])))
            ''/uploads/archives.zip'' (Some ''/tmp'') start)))) =
       ZipDelivery ''/tmp/id0/signed'' ''id1.zip'' ''App.ipa''"
proof -
  let ?h = "scripted (xcarchive_upload a_and_b only_a_exports (''OK'' @ [CHR 0x0A]))"
  let ?found = "\<lparr>stdout = a_and_b, stderr = []\<rparr>"
  let ?response = "[\<lparr>stdout = only_a_exports ''/tmp/id0/A.xcarchive'', stderr = []\<rparr>,
                    \<lparr>stdout = only_a_exports ''/tmp/id0/B.xcarchive'', stderr = []\<rparr>]"
  define s1 where "s1 = snd (extractArchiveContents ?h ''/uploads/archives.zip''
                               (workspace_or_default (Some ''/tmp'')) start)"
  define s2 where "s2 = snd (exec_cmd ?h (Find ''/tmp/id0'' ''*.xcarchive'') s1)"
  define s3 where "s3 = snd (exec_all ?h (map (export_command ?h ''/tmp/id0'')
                               (js_split (CHR 0x0A) (js_trim (stdout ?found)))) s2)"
  have h1: "extractArchiveContents ?h ''/uploads/archives.zip''
              (workspace_or_default (Some ''/tmp'')) start = (Inr ''/tmp/id0'', s1)"
    unfolding s1_def by (simp add: task_defs script_defs a_and_b_def only_a_exports_def extractArchiveContents_def Let_def)
  have h2: "exec_cmd ?h (Find ''/tmp/id0'' ''*.xcarchive'') s1 = (Inr ?found, s2)"
    unfolding s2_def by (simp add: task_defs script_defs a_and_b_def only_a_exports_def)
  have h3: "stderr ?found = []" by simp
  have h4: "exec_all ?h (map (export_command ?h ''/tmp/id0'')
              (js_split (CHR 0x0A) (js_trim (stdout ?found)))) s2 = (Inr ?response, s3)"
    unfolding s3_def by (simp add: task_defs string_defs script_defs a_and_b_def only_a_exports_def export_command_def)
  have wellformed: "\<forall>v \<in> set ?response. reports_success v \<longrightarrow> length (first_line_components v) = 4"
    by (simp add: string_defs script_defs a_and_b_def only_a_exports_def reports_success_def first_line_components_def)
  have collected: "collectItems ?response [] = Inr [''/tmp/id0/signed/A/App.ipa'']"
    using unsuccessful_exports_are_skipped[OF h1 h2 h3 h4] wellformed
    by (simp add: string_defs script_defs a_and_b_def only_a_exports_def reports_success_def first_line_components_def
        artifact_path_def)
  have delivered: "fst (signxcarchive ?h ''/uploads/archives.zip'' (Some ''/tmp'') start) =
         Fulfilled ''/tmp/id0/signed/id1.zip''
       \<and> fst (last (spawned (snd (signxcarchive ?h ''/uploads/archives.zip'' (Some ''/tmp'') start)))) =
         ZipDelivery ''/tmp/id0/signed'' ''id1.zip'' ''App.ipa''"
    by (simp add: task_defs string_defs script_defs a_and_b_def only_a_exports_def xc_defs Let_def)
  from collected delivered show ?thesis by simp
qed

text \<open>
  Claim C6 (the code departs from it). Every error of the xcarchive pipeline should be
  caught, logged and turned into the same rejection without a reason. The newer
  signxcarchive returns the promise of packageForDelivery without awaiting it, so the
  \<^verbatim>\<open>try\<close> block is left before packaging settles: when \<^verbatim>\<open>zip\<close> prints \<^verbatim>\<open>FAIL\<close> the
  caller receives the Error "Unable to create delivery package" itself and nothing is
  logged. The older signxcarchive, which awaits the zip inside the block, rejects
  without a reason and logs the message on the same upload.
\<close>

theorem packaging_failure_escapes_the_catch:
  "fst (signxcarchive
         (scripted (xcarchive_upload a_and_b only_a_exports (''FAIL'' @ [CHR 0x0A])))
         ''/uploads/archives.zip'' (Some ''/tmp'') start) =
     RejectedWith (Some (Error ''Unable to create delivery package''))
   \<and> console (snd (signxcarchive
         (scripted (xcarchive_upload a_and_b only_a_exports (''FAIL'' @ [CHR 0x0A])))
         ''/uploads/archives.zip'' (Some ''/tmp'') start)) = []
   \<and> fst (signxcarchive_inline
         (scripted (xcarchive_upload a_and_b only_a_exports (''FAIL'' @ [CHR 0x0A])))
         ''/uploads/archives.zip'' (Some ''/tmp'') start) = RejectedWith None
   \<and> logger (snd (signxcarchive_inline
         (scripted (xcarchive_upload a_and_b only_a_exports (''FAIL'' @ [CHR 0x0A])))
         ''/uploads/archives.zip'' (Some ''/tmp'') start)) =
       [''Unable to create delivery package'']"
  by (simp add: task_defs string_defs script_defs a_and_b_def only_a_exports_def signxcarchive_inline_def
      signxcarchive_inline_try_def zip_inline_def xc_defs Let_def)

subsection \<open>Resource-fork shadows\<close>

lemma located_ipas_no_shadow:
  "item \<in> set (located_ipas out) \<Longrightarrow> item \<noteq> [] \<and> \<not> js_includes item ''__MACOSX''"
  by (simp add: located_ipas_def)

text \<open>
  Claim C9 (the code departs from it). Paths containing \<^verbatim>\<open>__MACOSX\<close> should be dropped
  from the search result in both pipelines. signipaarchive filters them, signxcarchive
  does not: for an upload whose search prints \<^verbatim>\<open>/tmp/id0/A.xcarchive\<close> and its shadow
  \<^verbatim>\<open>/tmp/id0/__MACOSX/A.xcarchive\<close>, signxcarchive spawns an export for the shadow,
  while signipaarchive on the corresponding ipa upload spawns nothing for the shadow.
\<close>

theorem signxcarchive_exports_metadata_shadow:
  "map fst (spawned (snd (signxcarchive
      (scripted (xcarchive_upload shadowed_xcarchives only_a_exports (''OK'' @ [CHR 0x0A])))
      ''/uploads/archives.zip'' (Some ''/tmp'') start))) =
     [Unzip ''/uploads/archives.zip'' ''/tmp/id0'',
      Find ''/tmp/id0'' ''*.xcarchive'',
      ExportArchive ''/tmp/id0/A.xcarchive'' ''/tmp/id0/signed/A'' ''/tmp/id0/options.plist'',
      ExportArchive ''/tmp/id0/__MACOSX/A.xcarchive'' ''/tmp/id0/signed/A''
        ''/tmp/id0/options.plist'',
      ZipDelivery ''/tmp/id0/signed'' ''id1.zip'' ''App.ipa'']
   \<and> map fst (spawned (snd (signipaarchive
      (scripted ((ipa_upload ''Apple Distribution: Example Org (ABCDE12345)'' one_identity)
                   \<lparr>found := shadowed_ipas\<rparr>))
      ''/uploads/app.zip'' (Some ''/tmp'') start))) =
     [Unzip ''/uploads/app.zip'' ''/tmp/id0'',
      Find ''/tmp/id0'' ''*.ipa'',
      UnzipIpa ''/tmp/id0/App.ipa'' ''/tmp/id0/signed/0'',
      CodesignAuthority ''/tmp/id0/signed/0'',
      FindIdentity,
      FindIdentity,
      Resign ''/tmp/id0/signed/0'' ''0123456789ABCDEF0123456789ABCDEF01234567'' ''App.ipa''
        ''/tmp/id0'',
      ZipDelivery ''/tmp/id0'' ''id1.zip'' ''App.ipa'']"
  by (simp add: task_defs string_defs script_defs shadowed_xcarchives_def shadowed_ipas_def
      only_a_exports_def xc_defs ipa_defs Let_def)

subsection \<open>Re-signing with the resolved identity\<close>

lemma selectIdentifier_first_match:
  "find (\<lambda>item. js_includes item v) cids = Some m \<Longrightarrow> m \<noteq> [] \<Longrightarrow>
   selectIdentifier cids v = Inr (Some (js_trim (hd (js_split (CHR '' '') m))))"
  by (simp add: selectIdentifier_def)

text \<open>
  The scenario of the specification: one ipa signed by "Apple Distribution: Example Org
  (ABCDE12345)" and a host whose valid identity has that name. The bundle is re-signed
  with the identity's hash and the archive is asked for the original file name.
\<close>

lemma matching_identity_resigns:
  "signipaarchive
     (scripted (ipa_upload ''Apple Distribution: Example Org (ABCDE12345)'' one_identity))
     ''/uploads/app.zip'' (Some ''/tmp'') start =
   (Fulfilled ''/tmp/id0/id1.zip'',
    \<lparr>world = 2,
     spawned =
       [(Unzip ''/uploads/app.zip'' ''/tmp/id0'', ok []),
        (Find ''/tmp/id0'' ''*.ipa'', ok (''/tmp/id0/App.ipa'' @ [CHR 0x0A])),
        (UnzipIpa ''/tmp/id0/App.ipa'' ''/tmp/id0/signed/0'', ok []),
        (CodesignAuthority ''/tmp/id0/signed/0'',
         ok (''Apple Distribution: Example Org (ABCDE12345)'' @ [CHR 0x0A])),
        (FindIdentity, ok one_identity),
        (FindIdentity, ok one_identity),
        (Resign ''/tmp/id0/signed/0'' ''0123456789ABCDEF0123456789ABCDEF01234567''
           ''App.ipa'' ''/tmp/id0'', ok []),
        (ZipDelivery ''/tmp/id0'' ''id1.zip'' ''App.ipa'', ok (''OK'' @ [CHR 0x0A]))],
     console = [], logger = []\<rparr>)"
  by (simp add: task_defs string_defs script_defs ipa_defs Let_def)

text \<open>
  Claim C3 (the code departs from it). An ipa whose authority string occurs in a valid
  identity entry should be re-signed with the first such entry's identifier.
  currentValidSigningIdentities strips the index of each line with
  \<^verbatim>\<open>trim().substr(3)\<close>, which fits \<^verbatim>\<open>1) \<close> to \<^verbatim>\<open>9) \<close> only: from the tenth line on the
  entry keeps a leading space, its first piece up to a space is empty, and the resolver
  returns the empty string. On a host with ten valid identities of which only the tenth
  matches, the entry is found and yet the run fails with "No match to current signing
  identity".
\<close>

theorem tenth_identity_is_not_resolved:
  "fst (uniqueSigningIdentifierForValue
         (scripted (ipa_upload ''Apple Distribution: Example Org (ABCDE12345)'' ten_identities))
         ''Apple Distribution: Example Org (ABCDE12345)'' start) = Inr (Some [])
   \<and> fst (signipaarchive
         (scripted (ipa_upload ''Apple Distribution: Example Org (ABCDE12345)'' ten_identities))
         ''/uploads/app.zip'' (Some ''/tmp'') start) =
       RejectedWith (Some (Error ''No match to current signing identity''))"
  by code_simp

subsection \<open>Uploads without a bundle\<close>









subsection \<open>The two signxcarchive implementations\<close>

lemma signxcarchive_inline_try_via_newer:
  "signxcarchive_inline_try h a w s =
     (case signxcarchive_try h a w s of
        (Inl e, s1) \<Rightarrow> (Inl e, s1)
      | (Inr (dir, items), s1) \<Rightarrow>
          zip_inline h (path_join h [w, fst (generate h (world s))]) items s1)"
  by (simp add: signxcarchive_inline_try_def signxcarchive_try_def extractArchiveContents_def
      await_def shortid_generate_def resolve_def throw_def Let_def
      split: prod.splits sum.splits)

lemma signxcarchive_try_dir:
  "signxcarchive_try h a w s = (Inr (dir, items), s1) \<Longrightarrow>
   dir = path_join h [path_join h [w, fst (generate h (world s))], ''signed'']"
  by (auto simp: signxcarchive_try_def extractArchiveContents_def
      await_def shortid_generate_def resolve_def throw_def Let_def
      split: prod.splits sum.splits if_splits)

text \<open>
  Claim C10 as stated fails: the two implementations differ at packaging. With two
  successful exports the older one asks \<^verbatim>\<open>zip\<close> for the single name made of the item
  paths joined by commas and returns an archive in the workspace directory, the newer
  one asks for the base names from inside \<^verbatim>\<open>signed\<close> and returns an archive there;
  and when \<^verbatim>\<open>zip\<close> reports \<^verbatim>\<open>FAIL\<close> the older one rejects without a reason while the
  newer one rejects with the packaging error.
\<close>

theorem signxcarchive_versions_counterexample:
  "fst (signxcarchive (scripted (xcarchive_upload a_and_b both_export (''OK'' @ [CHR 0x0A])))
          ''/uploads/archives.zip'' (Some ''/tmp'') start) =
     Fulfilled ''/tmp/id0/signed/id1.zip''
   \<and> fst (last (spawned (snd (signxcarchive
          (scripted (xcarchive_upload a_and_b both_export (''OK'' @ [CHR 0x0A])))
          ''/uploads/archives.zip'' (Some ''/tmp'') start)))) =
     ZipDelivery ''/tmp/id0/signed'' ''id1.zip'' ''A B''
   \<and> fst (signxcarchive_inline
          (scripted (xcarchive_upload a_and_b both_export (''OK'' @ [CHR 0x0A])))
          ''/uploads/archives.zip'' (Some ''/tmp'') start) =
     Fulfilled ''/tmp/id0/id1.zip''
   \<and> fst (last (spawned (snd (signxcarchive_inline
          (scripted (xcarchive_upload a_and_b both_export (''OK'' @ [CHR 0x0A])))
          ''/uploads/archives.zip'' (Some ''/tmp'') start)))) =
     ZipInline ''/tmp/id0/id1.zip'' ''/tmp/id0/signed/A,/tmp/id0/signed/B''
   \<and> fst (signxcarchive (scripted (xcarchive_upload a_and_b both_export (''FAIL'' @ [CHR 0x0A])))
          ''/uploads/archives.zip'' (Some ''/tmp'') start) =
     RejectedWith (Some (Error ''Unable to create delivery package''))
   \<and> fst (signxcarchive_inline
          (scripted (xcarchive_upload a_and_b both_export (''FAIL'' @ [CHR 0x0A])))
          ''/uploads/archives.zip'' (Some ''/tmp'') start) =
     RejectedWith None"
  by (simp add: task_defs string_defs script_defs a_and_b_def both_export_def signxcarchive_inline_def
      signxcarchive_inline_try_def zip_inline_def xc_defs Let_def)

text \<open>
  Claim C10, amended. The two implementations agree on every stage before packaging:
  on the same host and arguments the older one runs what the awaited part of the newer
  one runs (the same extraction, search and export commands, the same loop over the
  results). When one of these stages fails, both reject without a reason, in the same
  state and with the same message logged, the older with \<^verbatim>\<open>logger.error\<close> and the
  newer with \<^verbatim>\<open>console.log\<close>. When the stages succeed, both package the same list of
  items and are fulfilled with the archive's path when their packaging succeeds: the
  newer through packageForDelivery in the \<^verbatim>\<open>signed\<close> directory, the older with its own
  \<^verbatim>\<open>zip\<close> command in the workspace directory.
\<close>

theorem signxcarchive_versions_agree_before_packaging:
  assumes "apath = path_join h [workspace_or_default ws, fst (generate h (world s))]"
  shows "(case signxcarchive_try h a (workspace_or_default ws) s of
      (Inl e, s1) \<Rightarrow>
        signxcarchive h a ws s =
          (RejectedWith None, s1\<lparr>console := console s1 @ [message e]\<rparr>) \<and>
        signxcarchive_inline h a ws s =
          (RejectedWith None, s1\<lparr>logger := logger s1 @ [message e]\<rparr>)
    | (Inr (dir, items), s1) \<Rightarrow>
        dir = path_join h [apath, ''signed''] \<and>
        (\<forall>p s2. packageForDelivery h dir items s1 = (Inr p, s2) \<longrightarrow>
           signxcarchive h a ws s = (Fulfilled p, s2)) \<and>
        (\<forall>p s2. zip_inline h apath items s1 = (Inr p, s2) \<longrightarrow>
           signxcarchive_inline h a ws s = (Fulfilled p, s2)))"
proof (cases "signxcarchive_try h a (workspace_or_default ws) s")
  case (Pair r s1)
  show ?thesis
  proof (cases r)
    case (Inl e)
    with Pair show ?thesis
      by (simp add: signxcarchive_def signxcarchive_inline_def
          signxcarchive_inline_try_via_newer)
  next
    case (Inr packed)
    obtain dir items where packed: "packed = (dir, items)" by (cases packed)
    from Pair Inr packed have dir: "dir = path_join h [apath, ''signed'']"
      using signxcarchive_try_dir[of h a "workspace_or_default ws" s dir items s1] assms
      by simp
    from Pair Inr packed dir assms show ?thesis
      by (simp add: signxcarchive_def signxcarchive_inline_def
          signxcarchive_inline_try_via_newer)
  qed
qed

theorem signxcarchive_versions_agree_before_packaging_witness:
  "fst (signxcarchive (scripted (xcarchive_upload a_and_b both_export (''OK'' @ [CHR 0x0A])))
          ''/uploads/archives.zip'' (Some ''/tmp'') start) =
     Fulfilled ''/tmp/id0/signed/id1.zip''
   \<and> fst (signxcarchive_inline
          (scripted (xcarchive_upload a_and_b both_export (''OK'' @ [CHR 0x0A])))
          ''/uploads/archives.zip'' (Some ''/tmp'') start) =
     Fulfilled ''/tmp/id0/id1.zip''
   \<and> signxcarchive (scripted broken_upload) ''/uploads/app.zip'' (Some ''/tmp'') start =
     (RejectedWith None,
      \<lparr>world = 1,
       spawned = [(Unzip ''/uploads/app.zip'' ''/tmp/id0'',
                   Inl (ExecError ''Command failed: unzip -q /uploads/app.zip''))],
       console = [''Command failed: unzip -q /uploads/app.zip''], logger = []\<rparr>)
   \<and> signxcarchive_inline (scripted broken_upload) ''/uploads/app.zip'' (Some ''/tmp'') start =
     (RejectedWith None,
      \<lparr>world = 1,
       spawned = [(Unzip ''/uploads/app.zip'' ''/tmp/id0'',
                   Inl (ExecError ''Command failed: unzip -q /uploads/app.zip''))],
       console = [], logger = [''Command failed: unzip -q /uploads/app.zip'']\<rparr>)"
  using signxcarchive_versions_agree_before_packaging
          [of "''/tmp/id0''" "scripted (xcarchive_upload a_and_b both_export (''OK'' @ [CHR 0x0A]))"
              "Some ''/tmp''" start "''/uploads/archives.zip''"]
        signxcarchive_versions_agree_before_packaging
          [of "''/tmp/id0''" "scripted broken_upload" "Some ''/tmp''" start "''/uploads/app.zip''"]
  by (simp add: task_defs string_defs script_defs a_and_b_def both_export_def broken_upload_def
      signxcarchive_inline_def signxcarchive_inline_try_def zip_inline_def xc_defs Let_def)

end
